theory Spec2Isabelle
  imports Complex_Main "HOL-Library.AList"
begin

section \<open>Values\<close>

text \<open>
  The file \<^verbatim>\<open>api/generate-quiz.js\<close> holds the quiz endpoint twice; the version
  modelled here is the first (lines 1-288), the one with the chain of providers and the
  local fallback. The endpoint works on JSON values: the parsed provider
  answers, the quiz objects it builds itself and the bodies it sends. A JavaScript string
  is modelled as a \<^typ>\<open>string\<close> whose characters are the code units below 256; an object
  is the list of its own properties in insertion order; \<open>None\<close> of type
  \<open>json option\<close> stands for \<^verbatim>\<open>undefined\<close>.
\<close>

datatype json =
    JNull
  | JBool bool
  | JNumber rat
  | JString string
  | JArray "json list"
  | JObject "(string \<times> json) list"

text \<open>What the code throws: \<^verbatim>\<open>new Error(msg)\<close> and the engine's own errors.\<close>

datatype error =
    Error string
  | TypeError string
  | SyntaxError string

fun message :: "error \<Rightarrow> string" where
  "message (Error m) = m"
| "message (TypeError m) = m"
| "message (SyntaxError m) = m"

text \<open>Reading an own property of a JSON value that is known to be an object.\<close>

fun field :: "string \<Rightarrow> json \<Rightarrow> json option" where
  "field k (JObject kvs) = map_of kvs k"
| "field k _ = None"

fun elements :: "json option \<Rightarrow> json list" where
  "elements (Some (JArray xs)) = xs"
| "elements _ = []"

definition quiz_questions :: "json \<Rightarrow> json list" where
  "quiz_questions quiz = elements (field ''questions'' quiz)"

section \<open>Template literals\<close>

text \<open>The decimal text of an integer, as \<^verbatim>\<open>${numQuestions}\<close> prints it.\<close>

fun digits :: "nat \<Rightarrow> string" where
  "digits n =
     (if n < 10 then [char_of (48 + n)]
      else digits (n div 10) @ [char_of (48 + n mod 10)])"

declare digits.simps [simp del]

definition show_int :: "int \<Rightarrow> string" where
  "show_int n = (if n < 0 then CHR ''-'' # digits (nat (- n)) else digits (nat n))"

section \<open>The locally generated quizzes\<close>

text \<open>
  \<^verbatim>\<open>i < numQuestions / 3 ? "easy" : i < 2 * numQuestions / 3 ? "medium" : "hard"\<close>:
  the division is the division of numbers, not of integers. It is taken exactly here; for
  an integer index and an integer count below \<open>2^50\<close> the comparison with the rounded
  floating-point quotient has the same outcome.
\<close>

definition difficulty :: "int \<Rightarrow> int \<Rightarrow> string" where
  "difficulty i numQuestions =
     (if (of_int i :: rat) < of_int numQuestions / 3 then ''easy''
      else if (of_int i :: rat) < 2 * of_int numQuestions / 3 then ''medium''
      else ''hard'')"

text \<open>The object pushed for index \<open>i\<close> by \<^verbatim>\<open>generateFallbackQuiz\<close>.\<close>

definition fallbackQuestion :: "string \<Rightarrow> int \<Rightarrow> int \<Rightarrow> json" where
  "fallbackQuestion topic numQuestions i =
     (let isMultipleChoice = (i mod 2 = 0) in
      if isMultipleChoice then
        JObject
          [(''question'', JString (''What is a key aspect of '' @ topic @ ''?'')),
           (''type'', JString ''multiple-choice''),
           (''options'', JArray
              [JString (''A) An important concept related to '' @ topic),
               JString (''B) A secondary aspect of '' @ topic),
               JString (''C) A minor detail about '' @ topic),
               JString ''D) An unrelated topic'']),
           (''answer'', JString (''A) An important concept related to '' @ topic)),
           (''explanation'', JString
              (''This question tests your understanding of '' @ topic @ '' fundamentals.'')),
           (''difficulty'', JString (difficulty i numQuestions))]
      else
        JObject
          [(''question'', JString
              (''True or False: '' @ topic @ '' is an important subject worth studying.'')),
           (''type'', JString ''true-false''),
           (''answer'', JString ''True''),
           (''explanation'', JString
              (topic @ '' is indeed an important subject that provides valuable knowledge.'')),
           (''difficulty'', JString (difficulty i numQuestions))])"

text \<open>The object pushed for index \<open>i\<close> by \<^verbatim>\<open>createStructuredQuiz\<close>.\<close>

definition structuredQuestion :: "string \<Rightarrow> int \<Rightarrow> int \<Rightarrow> json" where
  "structuredQuestion topic numQuestions i =
     (let isMultipleChoice = (i mod 2 = 0) in
      if isMultipleChoice then
        JObject
          [(''question'', JString (''What is an important aspect of '' @ topic @ ''?'')),
           (''type'', JString ''multiple-choice''),
           (''options'', JArray
              [JString (''A) A key concept in '' @ topic),
               JString (''B) A secondary element of '' @ topic),
               JString (''C) A minor detail about '' @ topic),
               JString ''D) An unrelated topic'']),
           (''answer'', JString (''A) A key concept in '' @ topic)),
           (''explanation'', JString
              (''This question tests your understanding of '' @ topic @ '' fundamentals.'')),
           (''difficulty'', JString (difficulty i numQuestions))]
      else
        JObject
          [(''question'', JString
              (''True or False: '' @ topic @ '' is a valuable subject to study.'')),
           (''type'', JString ''true-false''),
           (''answer'', JString ''True''),
           (''explanation'', JString
              (topic @ '' provides important knowledge and understanding.'')),
           (''difficulty'', JString (difficulty i numQuestions))])"

text \<open>
  \<^verbatim>\<open>for (let i = 0; i < numQuestions; i++) { questions.push(...) }\<close>, shared by the two
  generators, which differ in the object they push.
\<close>

function pushLoop :: "(int \<Rightarrow> json) \<Rightarrow> int \<Rightarrow> int \<Rightarrow> json list \<Rightarrow> json list" where
  "pushLoop question_at numQuestions i questions =
     (if i < numQuestions
      then pushLoop question_at numQuestions (i + 1) (questions @ [question_at i])
      else questions)"
  by pat_completeness auto
termination
  by (relation "measure (\<lambda>(question_at, numQuestions, i, questions). nat (numQuestions - i))") auto

declare pushLoop.simps [simp del]

definition generateFallbackQuiz :: "string \<Rightarrow> int \<Rightarrow> string \<Rightarrow> json" where
  "generateFallbackQuiz topic numQuestions now =
     (let questions = pushLoop (fallbackQuestion topic numQuestions) numQuestions 0 [] in
      JObject
        [(''title'', JString (topic @ '' Quiz'')),
         (''total_questions'', JNumber (of_int numQuestions)),
         (''questions'', JArray questions),
         (''source'', JString (''Fallback quiz for '' @ topic)),
         (''generated_at'', JString now)])"

definition createStructuredQuiz :: "string \<Rightarrow> int \<Rightarrow> string \<Rightarrow> string \<Rightarrow> json" where
  "createStructuredQuiz topic numQuestions content now =
     (let questions = pushLoop (structuredQuestion topic numQuestions) numQuestions 0 [] in
      JObject
        [(''title'', JString (topic @ '' Quiz'')),
         (''total_questions'', JNumber (of_int numQuestions)),
         (''questions'', JArray questions),
         (''source'', JString (''AI-generated quiz about '' @ topic)),
         (''generated_at'', JString now)])"

section \<open>JavaScript on JSON values\<close>

text \<open>Truthiness, as \<^verbatim>\<open>!x\<close> and \<^verbatim>\<open>x || y\<close> test it.\<close>

fun truthy :: "json option \<Rightarrow> bool" where
  "truthy None = False"
| "truthy (Some JNull) = False"
| "truthy (Some (JBool b)) = b"
| "truthy (Some (JNumber x)) = (x \<noteq> 0)"
| "truthy (Some (JString s)) = (s \<noteq> [])"
| "truthy (Some (JArray xs)) = True"
| "truthy (Some (JObject kvs)) = True"

text \<open>
  \<^verbatim>\<open>v.name\<close>, for the names the code reads (\<open>candidates\<close>, \<open>content\<close>, \<open>parts\<close>,
  \<open>text\<close>, \<open>generated_text\<close>), none of which a prototype defines: reading from
  \<^verbatim>\<open>undefined\<close> or \<^verbatim>\<open>null\<close> throws, an object gives its own property, every
  other value gives \<^verbatim>\<open>undefined\<close>.
\<close>

fun js_get :: "json option \<Rightarrow> string \<Rightarrow> error + json option" where
  "js_get None name = Inl (TypeError ''Cannot read properties of undefined'')"
| "js_get (Some JNull) name = Inl (TypeError ''Cannot read properties of null'')"
| "js_get (Some (JObject kvs)) name = Inr (map_of kvs name)"
| "js_get (Some v) name = Inr None"

text \<open>\<^verbatim>\<open>v[0]\<close>: the first element of an array, the property \<open>0\<close> of an object, the
  first character of a string.\<close>

fun js_first :: "json option \<Rightarrow> error + json option" where
  "js_first None = Inl (TypeError ''Cannot read properties of undefined'')"
| "js_first (Some JNull) = Inl (TypeError ''Cannot read properties of null'')"
| "js_first (Some (JArray xs)) = Inr (case xs of [] \<Rightarrow> None | x # rest \<Rightarrow> Some x)"
| "js_first (Some (JObject kvs)) = Inr (map_of kvs ''0'')"
| "js_first (Some (JString s)) = Inr (case s of [] \<Rightarrow> None | c # rest \<Rightarrow> Some (JString [c]))"
| "js_first (Some v) = Inr None"

text \<open>
  \<^verbatim>\<open>quiz.name = value\<close> on a parsed value, in module (strict) code, seen through the JSON
  text that \<^verbatim>\<open>res.json\<close> writes afterwards: an object gets or replaces the property; an
  array gets it too, but its JSON text has the elements only; \<^verbatim>\<open>null\<close> and the primitive
  values throw.
\<close>

fun set_property :: "json \<Rightarrow> string \<Rightarrow> json \<Rightarrow> error + json" where
  "set_property (JObject kvs) name v = Inr (JObject (AList.update name v kvs))"
| "set_property (JArray xs) name v = Inr (JArray xs)"
| "set_property JNull name v = Inl (TypeError ''Cannot set properties of null'')"
| "set_property quiz name v = Inl (TypeError ''Cannot create property'')"

section \<open>Cleaning a provider's text\<close>

text \<open>The white space and line terminators of JavaScript that are code units below 256.\<close>

definition js_whitespace :: "char \<Rightarrow> bool" where
  "js_whitespace c =
     (c \<in> set [CHR 0x09, CHR 0x0A, CHR 0x0B, CHR 0x0C, CHR 0x0D, CHR 0x20, CHR 0xA0])"

definition trim :: "string \<Rightarrow> string" where
  "trim s = rev (dropWhile js_whitespace (rev (dropWhile js_whitespace s)))"

definition startsWith :: "string \<Rightarrow> string \<Rightarrow> bool" where
  "startsWith s p = (take (length p) s = p)"

definition endsWith :: "string \<Rightarrow> string \<Rightarrow> bool" where
  "endsWith s p = (length p \<le> length s \<and> drop (length s - length p) s = p)"

text \<open>Lines 139-146 of \<^verbatim>\<open>generateQuizWithGemini\<close>: the text handed to \<^verbatim>\<open>JSON.parse\<close>.\<close>

definition cleanText :: "string \<Rightarrow> string" where
  "cleanText quizText =
     (let t0 = trim quizText;
          t1 = (if startsWith t0 ''```json'' then drop 7 t0 else t0);
          t2 = (if endsWith t1 ''```'' then take (length t1 - 3) t1 else t1)
      in t2)"

text \<open>
  \<^verbatim>\<open>quizText.match(/\{[\s\S]*\}/)\<close>: the match starts at the first opening brace and,
  the star being greedy and the class matching every code unit, ends at the last closing
  brace behind it; there is no match when no closing brace follows the first opening one.
\<close>

definition match_braces :: "string \<Rightarrow> string option" where
  "match_braces s =
     (case dropWhile (\<lambda>c. c \<noteq> CHR ''{'') s of
        [] \<Rightarrow> None
      | b # rest \<Rightarrow>
          (case dropWhile (\<lambda>c. c \<noteq> CHR ''}'') (rev rest) of
             [] \<Rightarrow> None
           | e # body \<Rightarrow> Some (b # rev (e # body))))"

section \<open>The environment of one request\<close>

text \<open>
  What the endpoint does not compute itself: the engine's \<^verbatim>\<open>JSON.parse\<close> (\<open>None\<close> when
  it throws a \<^verbatim>\<open>SyntaxError\<close>), the outcome of the \<^verbatim>\<open>fetch\<close> to each provider for the
  request the adapter builds from its arguments, and the text of \<^verbatim>\<open>new Date().toISOString()\<close>.
  A fetch is rejected, or gives a response with its \<open>ok\<close> flag, status, status text and
  the outcome of \<^verbatim>\<open>response.json()\<close> (\<open>None\<close> when the body is not JSON).
\<close>

datatype http_result =
    Rejected
  | Response bool nat string "json option"

record env =
  JSON_parse :: "string \<Rightarrow> json option"
  gemini_fetch :: "string \<Rightarrow> string \<Rightarrow> int \<Rightarrow> http_result"
  huggingface_fetch :: "string \<Rightarrow> int \<Rightarrow> http_result"
  date_now :: string

section \<open>The provider adapters\<close>

text \<open>
  Lines 133-137: the check of the envelope and the read of
  \<^verbatim>\<open>data.candidates[0].content.parts[0].text\<close>; only a string has the \<^verbatim>\<open>trim\<close> that the
  next line calls.
\<close>

definition gemini_text :: "json \<Rightarrow> error + string" where
  "gemini_text data =
     (case js_get (Some data) ''candidates'' of
        Inl e \<Rightarrow> Inl e
      | Inr candidates \<Rightarrow>
          if \<not> truthy candidates then Inl (Error ''Invalid response from API'')
          else
            (case js_first candidates of
               Inl e \<Rightarrow> Inl e
             | Inr candidate \<Rightarrow>
                 if \<not> truthy candidate then Inl (Error ''Invalid response from API'')
                 else
                   (case js_get candidate ''content'' of
                      Inl e \<Rightarrow> Inl e
                    | Inr content \<Rightarrow>
                        if \<not> truthy content then Inl (Error ''Invalid response from API'')
                        else
                          (case js_get content ''parts'' of
                             Inl e \<Rightarrow> Inl e
                           | Inr parts \<Rightarrow>
                               (case js_first parts of
                                  Inl e \<Rightarrow> Inl e
                                | Inr part \<Rightarrow>
                                    (case js_get part ''text'' of
                                       Inl e \<Rightarrow> Inl e
                                     | Inr (Some (JString quizText)) \<Rightarrow> Inr quizText
                                     | Inr other \<Rightarrow>
                                         Inl (TypeError ''quizText.trim is not a function'')))))))"

definition generateQuizWithGemini :: "env \<Rightarrow> string \<Rightarrow> string \<Rightarrow> int \<Rightarrow> error + json" where
  "generateQuizWithGemini env apiKey topic numQuestions =
     (case gemini_fetch env apiKey topic numQuestions of
        Rejected \<Rightarrow> Inl (TypeError ''fetch failed'')
      | Response ok status statusText body \<Rightarrow>
          if \<not> ok then
            Inl (Error (''API request failed: '' @ digits status @ '' '' @ statusText))
          else
            (case body of
               None \<Rightarrow> Inl (SyntaxError ''Unexpected token'')
             | Some data \<Rightarrow>
                 (case gemini_text data of
                    Inl e \<Rightarrow> Inl e
                  | Inr quizText \<Rightarrow>
                      (case JSON_parse env (cleanText quizText) of
                         None \<Rightarrow> Inl (SyntaxError ''Unexpected token'')
                       | Some quiz \<Rightarrow>
                           (case set_property quiz ''source''
                                   (JString (''AI analysis of '' @ topic)) of
                              Inl e \<Rightarrow> Inl e
                            | Inr quiz1 \<Rightarrow>
                                set_property quiz1 ''generated_at''
                                  (JString (date_now env)))))))"

definition generateQuizWithOpenAI :: "string \<Rightarrow> int \<Rightarrow> error + json" where
  "generateQuizWithOpenAI topic numQuestions = Inl (Error ''OpenAI API not configured'')"

definition huggingface_prompt :: "string \<Rightarrow> int \<Rightarrow> string" where
  "huggingface_prompt topic numQuestions =
     ''Create a quiz about '' @ [CHR 0x22] @ topic @ [CHR 0x22] @ '' with ''
       @ show_int numQuestions
       @ '' questions. Use only multiple-choice and true/false questions. ''
       @ ''Format as JSON with title, total_questions, and questions array.''"

text \<open>\<^verbatim>\<open>data[0]?.generated_text || prompt\<close>\<close>

definition generated_text_or :: "json \<Rightarrow> string \<Rightarrow> error + json" where
  "generated_text_or data prompt =
     (case js_first (Some data) of
        Inl e \<Rightarrow> Inl e
      | Inr None \<Rightarrow> Inr (JString prompt)
      | Inr (Some JNull) \<Rightarrow> Inr (JString prompt)
      | Inr (Some first) \<Rightarrow>
          (case js_get (Some first) ''generated_text'' of
             Inl e \<Rightarrow> Inl e
           | Inr None \<Rightarrow> Inr (JString prompt)
           | Inr (Some text) \<Rightarrow> if truthy (Some text) then Inr text else Inr (JString prompt)))"

text \<open>The body of the \<^verbatim>\<open>try\<close> block of \<^verbatim>\<open>generateQuizWithHuggingFace\<close> (lines 170-201).\<close>

definition huggingface_try :: "env \<Rightarrow> string \<Rightarrow> int \<Rightarrow> error + json" where
  "huggingface_try env topic numQuestions =
     (let prompt = huggingface_prompt topic numQuestions in
      case huggingface_fetch env topic numQuestions of
        Rejected \<Rightarrow> Inl (TypeError ''fetch failed'')
      | Response ok status statusText body \<Rightarrow>
          if \<not> ok then Inl (Error (''Hugging Face API error: '' @ digits status))
          else
            (case body of
               None \<Rightarrow> Inl (SyntaxError ''Unexpected token'')
             | Some data \<Rightarrow>
                 (case generated_text_or data prompt of
                    Inl e \<Rightarrow> Inl e
                  | Inr (JString quizText) \<Rightarrow>
                      (case match_braces quizText of
                         Some jsonMatch \<Rightarrow>
                           (case JSON_parse env jsonMatch of
                              None \<Rightarrow> Inl (SyntaxError ''Unexpected token'')
                            | Some quiz \<Rightarrow> Inr quiz)
                       | None \<Rightarrow>
                           Inr (createStructuredQuiz topic numQuestions quizText (date_now env)))
                  | Inr other \<Rightarrow> Inl (TypeError ''quizText.match is not a function''))))"

definition generateQuizWithHuggingFace :: "env \<Rightarrow> string \<Rightarrow> int \<Rightarrow> error + json" where
  "generateQuizWithHuggingFace env topic numQuestions =
     (case huggingface_try env topic numQuestions of
        Inr quiz \<Rightarrow> Inr quiz
      | Inl e \<Rightarrow> Inl (Error (''Hugging Face API failed: '' @ message e)))"

section \<open>The handler\<close>

text \<open>
  The request as the handler reads it: the method and, when the request has one, the body
  with its three properties (\<open>None\<close> for a property that is absent). The response is what
  \<^verbatim>\<open>res.status(n).end()\<close> or \<^verbatim>\<open>res.status(n).json(v)\<close> sends; the CORS headers, the
  same on every response, and the console log are left out. Beside the response the model
  returns the adapters that were called, in the order of the calls. A request without a
  body makes the destructuring of \<^verbatim>\<open>req.body\<close> throw, which the outer \<^verbatim>\<open>catch\<close>
  answers with status 500 (the engine's message is abridged).
\<close>

record quiz_request =
  body_api_key :: "string option"
  body_topic :: "string option"
  body_num_questions :: "int option"

record http_request =
  req_method :: string
  req_body :: "quiz_request option"

datatype response =
    End nat
  | Json nat json

datatype provider = Gemini | OpenAI | HuggingFace

definition error_body :: "string \<Rightarrow> json" where
  "error_body msg = JObject [(''error'', JString msg)]"

text \<open>Lines 34-63: the nested \<^verbatim>\<open>try\<close>/\<^verbatim>\<open>catch\<close> blocks that fill \<^verbatim>\<open>quiz\<close>.\<close>

definition tryProviders :: "env \<Rightarrow> string \<Rightarrow> string \<Rightarrow> int \<Rightarrow> json \<times> provider list" where
  "tryProviders env api_key topic num_questions =
     (case generateQuizWithGemini env api_key topic num_questions of
        Inr quiz \<Rightarrow> (quiz, [Gemini])
      | Inl error \<Rightarrow>
          (case generateQuizWithOpenAI topic num_questions of
             Inr quiz \<Rightarrow> (quiz, [Gemini, OpenAI])
           | Inl openaiError \<Rightarrow>
               (case generateQuizWithHuggingFace env topic num_questions of
                  Inr quiz \<Rightarrow> (quiz, [Gemini, OpenAI, HuggingFace])
                | Inl hfError \<Rightarrow>
                    (generateFallbackQuiz topic num_questions (date_now env),
                     [Gemini, OpenAI, HuggingFace]))))"

definition handler :: "env \<Rightarrow> http_request \<Rightarrow> response \<times> provider list" where
  "handler env req =
     (if req_method req = ''OPTIONS'' then (End 200, [])
      else if req_method req \<noteq> ''POST'' then (Json 405 (error_body ''Method not allowed''), [])
      else
        (case req_body req of
           None \<Rightarrow>
             (Json 500 (error_body (''Failed to generate quiz: ''
                @ message (TypeError ''Cannot destructure property of req.body''))), [])
         | Some body \<Rightarrow>
             (let num_questions = (case body_num_questions body of None \<Rightarrow> 10 | Some n \<Rightarrow> n)
              in
                case body_api_key body of
                  None \<Rightarrow> (Json 400 (error_body ''API key is required''), [])
                | Some api_key \<Rightarrow>
                    if api_key = [] then (Json 400 (error_body ''API key is required''), [])
                    else
                      (case body_topic body of
                         None \<Rightarrow> (Json 400 (error_body ''Topic is required''), [])
                       | Some topic \<Rightarrow>
                           if topic = [] then (Json 400 (error_body ''Topic is required''), [])
                           else
                             (case tryProviders env api_key topic num_questions of
                                (quiz, calls) \<Rightarrow> (Json 200 quiz, calls))))))"

section \<open>The specification's schema\<close>

text \<open>
  The Quiz and Question constraints of the specification's data model, as a predicate on
  JSON values; they are what the handler's results are compared with. (Of the constraint on
  the question text only non-emptiness is stated here.)
\<close>

definition is_nonempty_string :: "json option \<Rightarrow> bool" where
  "is_nonempty_string v = (case v of Some (JString s) \<Rightarrow> s \<noteq> [] | other \<Rightarrow> False)"

definition valid_question :: "json \<Rightarrow> bool" where
  "valid_question q =
     (is_nonempty_string (field ''question'' q)
      \<and> is_nonempty_string (field ''explanation'' q)
      \<and> field ''difficulty'' q \<in> set [Some (JString ''easy''), Some (JString ''medium''),
                                        Some (JString ''hard'')]
      \<and> (if field ''type'' q = Some (JString ''multiple-choice'') then
           (case field ''options'' q of
              Some (JArray opts) \<Rightarrow>
                length opts = 4
                \<and> (case field ''answer'' q of
                     Some (JString a) \<Rightarrow> JString a \<in> set opts
                   | other \<Rightarrow> False)
            | other \<Rightarrow> False)
         else if field ''type'' q = Some (JString ''true-false'') then
           field ''options'' q \<in> set [None, Some (JArray [])]
           \<and> field ''answer'' q \<in> set [Some (JString ''True''), Some (JString ''False'')]
         else False))"


text \<open>
  The band boundaries as the specification words them: floor division, the items left
  over when the count is not a multiple of three falling into the hard band. This is the
  reading that \<open>difficulty\<close> is compared with.
\<close>

definition spec_difficulty :: "int \<Rightarrow> int \<Rightarrow> string" where
  "spec_difficulty i count =
     (if i < count div 3 then ''easy''
      else if i < 2 * (count div 3) then ''medium''
      else ''hard'')"

section \<open>Example exchanges\<close>

text \<open>
  Concrete environments for the examples below: the envelope of a Gemini answer around a
  text, a Hugging Face answer around a generated text, two refusals, and \<^verbatim>\<open>JSON.parse\<close>
  given by its value on the texts an example hands to it (every other text being one it
  rejects).
\<close>

definition gemini_reply :: "string \<Rightarrow> http_result" where
  "gemini_reply text =
     Response True 200 ''OK''
       (Some (JObject [(''candidates'', JArray [JObject [(''content'',
          JObject [(''parts'', JArray [JObject [(''text'', JString text)]])])]])]))"

definition huggingface_reply :: "string \<Rightarrow> http_result" where
  "huggingface_reply text =
     Response True 200 ''OK'' (Some (JArray [JObject [(''generated_text'', JString text)]]))"

definition gemini_refusal :: http_result where
  "gemini_refusal = Response False 500 ''Internal Server Error'' None"

definition huggingface_refusal :: http_result where
  "huggingface_refusal = Response False 401 ''Unauthorized'' None"

definition example_env :: "(string \<times> json) list \<Rightarrow> http_result \<Rightarrow> http_result \<Rightarrow> env" where
  "example_env parses gemini huggingface =
     \<lparr>JSON_parse = map_of parses,
      gemini_fetch = (\<lambda>apiKey topic numQuestions. gemini),
      huggingface_fetch = (\<lambda>topic numQuestions. huggingface),
      date_now = ''2025-01-01T00:00:00.000Z''\<rparr>"

definition post :: "string \<Rightarrow> string \<Rightarrow> int \<Rightarrow> http_request" where
  "post api_key topic num_questions =
     \<lparr>req_method = ''POST'',
      req_body = Some \<lparr>body_api_key = Some api_key, body_topic = Some topic,
                        body_num_questions = Some num_questions\<rparr>\<rparr>"



text \<open>
  A provider text that declares seven questions and has five, and the value it parses to.
\<close>

definition true_false_text :: string where
  \<open>true_false_text =
     ''{"question":"Cells divide.","type":"true-false","answer":"True",''
     @ ''"explanation":"Mitosis.","difficulty":"easy"}''\<close>

definition true_false_json :: json where
  "true_false_json =
     JObject [(''question'', JString ''Cells divide.''), (''type'', JString ''true-false''),
              (''answer'', JString ''True''), (''explanation'', JString ''Mitosis.''),
              (''difficulty'', JString ''easy'')]"

definition seven_text :: string where
  \<open>seven_text =
     ''{"title":"Cells","total_questions":7,"questions":['' @ true_false_text @ '',''
     @ true_false_text @ '','' @ true_false_text @ '','' @ true_false_text @ '',''
     @ true_false_text @ '']}''\<close>

definition seven_json :: json where
  "seven_json =
     JObject [(''title'', JString ''Cells''), (''total_questions'', JNumber 7),
              (''questions'', JArray [true_false_json, true_false_json, true_false_json,
                                      true_false_json, true_false_json])]"

definition seven_returned :: json where
  "seven_returned =
     JObject [(''title'', JString ''Cells''), (''total_questions'', JNumber 7),
              (''questions'', JArray [true_false_json, true_false_json, true_false_json,
                                      true_false_json, true_false_json]),
              (''source'', JString ''AI analysis of Cells''),
              (''generated_at'', JString ''2025-01-01T00:00:00.000Z'')]"

text \<open>
  A provider text with a question of type \<open>essay\<close> and a multiple-choice question whose
  answer is none of its options, and the value it parses to.
\<close>

definition essay_text :: string where
  \<open>essay_text =
     ''{"title":"Cells","total_questions":2,"questions":[''
     @ ''{"question":"Describe mitosis.","type":"essay","answer":"Cells divide.",''
     @ ''"explanation":"Mitosis.","difficulty":"hard"},''
     @ ''{"question":"What divides?","type":"multiple-choice",''
     @ ''"options":["A) Cells","B) Rocks","C) Water","D) Light"],"answer":"Cells",''
     @ ''"explanation":"Mitosis.","difficulty":"easy"}]}''\<close>

definition essay_question :: json where
  "essay_question =
     JObject [(''question'', JString ''Describe mitosis.''), (''type'', JString ''essay''),
              (''answer'', JString ''Cells divide.''), (''explanation'', JString ''Mitosis.''),
              (''difficulty'', JString ''hard'')]"

definition loose_answer_question :: json where
  "loose_answer_question =
     JObject [(''question'', JString ''What divides?''),
              (''type'', JString ''multiple-choice''),
              (''options'', JArray [JString ''A) Cells'', JString ''B) Rocks'',
                                    JString ''C) Water'', JString ''D) Light'']),
              (''answer'', JString ''Cells''), (''explanation'', JString ''Mitosis.''),
              (''difficulty'', JString ''easy'')]"

definition essay_json :: json where
  "essay_json =
     JObject [(''title'', JString ''Cells''), (''total_questions'', JNumber 2),
              (''questions'', JArray [essay_question, loose_answer_question])]"

definition essay_returned :: json where
  "essay_returned =
     JObject [(''title'', JString ''Cells''), (''total_questions'', JNumber 2),
              (''questions'', JArray [essay_question, loose_answer_question]),
              (''source'', JString ''AI analysis of Cells''),
              (''generated_at'', JString ''2025-01-01T00:00:00.000Z'')]"

text \<open>
  Hugging Face texts with an embedded quiz: one that has no \<open>source\<close> and no
  \<open>generated_at\<close>, alone and inside a sentence, and one that brings a \<open>source\<close> of its own.
\<close>

definition bare_quiz_text :: string where
  \<open>bare_quiz_text =
     ''{"title":"Cells","total_questions":1,"questions":['' @ true_false_text @ '']}''\<close>

definition bare_quiz_json :: json where
  "bare_quiz_json =
     JObject [(''title'', JString ''Cells''), (''total_questions'', JNumber 1),
              (''questions'', JArray [true_false_json])]"

definition sourced_quiz_text :: string where
  \<open>sourced_quiz_text =
     ''{"title":"Cells","total_questions":1,"questions":['' @ true_false_text
     @ ''],"source":"Wikipedia"}''\<close>

definition sourced_quiz_json :: json where
  "sourced_quiz_json =
     JObject [(''title'', JString ''Cells''), (''total_questions'', JNumber 1),
              (''questions'', JArray [true_false_json]),
              (''source'', JString ''Wikipedia'')]"

definition chatty_text :: string where
  "chatty_text = ''Here is your quiz: '' @ sourced_quiz_text @ '' Enjoy!''"







section \<open>The loop and the difficulty bands\<close>

lemma pushLoop_map:
  "pushLoop question_at n i qs = qs @ map question_at [i..n - 1]"
proof (induction question_at n i qs rule: pushLoop.induct)
  case (1 question_at n i qs)
  show ?case
  proof (cases "i < n")
    case True
    then have "[i..n - 1] = i # [i + 1..n - 1]"
      by (simp add: upto_rec1)
    with True "1" show ?thesis
      by (simp add: pushLoop.simps [of question_at n i qs])
  next
    case False
    then show ?thesis
      by (simp add: pushLoop.simps [of question_at n i qs])
  qed
qed

lemma pushLoop_length: "length (pushLoop question_at n 0 []) = nat n"
  by (simp add: pushLoop_map)

lemma pushLoop_nth:
  assumes "0 \<le> i" and "i < n"
  shows "pushLoop question_at n 0 [] ! nat i = question_at i"
  using assms by (simp add: pushLoop_map)

lemma pushLoop_set: "set (pushLoop question_at n 0 []) = question_at ` {0..n - 1}"
  by (simp add: pushLoop_map)

lemma difficulty_cases:
  "difficulty i n =
     (if 3 * i < n then ''easy'' else if 3 * i < 2 * n then ''medium'' else ''hard'')"
proof -
  have a: "((of_int i :: rat) < of_int n / 3) = (3 * i < n)"
  proof -
    have "((of_int i :: rat) < of_int n / 3) = ((of_int (3 * i) :: rat) < of_int n)"
      by (simp add: field_simps)
    then show ?thesis by (simp only: of_int_less_iff)
  qed
  have b: "((of_int i :: rat) < 2 * of_int n / 3) = (3 * i < 2 * n)"
  proof -
    have "((of_int i :: rat) < 2 * of_int n / 3) = ((of_int (3 * i) :: rat) < of_int (2 * n))"
      by (simp add: field_simps)
    then show ?thesis by (simp only: of_int_less_iff)
  qed
  show ?thesis by (simp only: difficulty_def a b)
qed

lemma difficulty_ceiling:
  "difficulty i n =
     (if i < \<lceil>(of_int n :: rat) / 3\<rceil> then ''easy''
      else if i < \<lceil>2 * (of_int n :: rat) / 3\<rceil> then ''medium''
      else ''hard'')"
  by (simp only: difficulty_def less_ceiling_iff)

lemma fallbackQuestion_difficulty:
  "field ''difficulty'' (fallbackQuestion topic n i) = Some (JString (difficulty i n))"
  by (simp add: fallbackQuestion_def)

lemma quiz_questions_fallback:
  "quiz_questions (generateFallbackQuiz topic n now) =
     pushLoop (fallbackQuestion topic n) n 0 []"
  by (simp add: quiz_questions_def generateFallbackQuiz_def)


section \<open>The deterministic fallback generator\<close>

text \<open>
  Claim C7, as stated, fails: with ten questions the question at index 3 is easy, where
  floor-division bands (three easy, three medium, four hard) make it medium.
\<close>

theorem C7_floor_bands_counterexample:
  "field ''difficulty'' (quiz_questions (generateFallbackQuiz ''Photosynthesis'' 10 ''t'') ! 3)
     = Some (JString ''easy'')
   \<and> spec_difficulty 3 10 = ''medium''"
proof -
  have "quiz_questions (generateFallbackQuiz ''Photosynthesis'' 10 ''t'') ! nat 3
          = fallbackQuestion ''Photosynthesis'' 10 3"
    by (simp only: quiz_questions_fallback) (rule pushLoop_nth; simp)
  then show ?thesis
    by (simp add: fallbackQuestion_difficulty difficulty_cases spec_difficulty_def)
qed

text \<open>
  Claim C7, amended: the question at index \<open>i\<close> of \<open>count\<close> is easy when
  \<open>i < count / 3\<close>, medium when \<open>count / 3 \<le> i < 2 * count / 3\<close> and hard from
  \<open>2 * count / 3\<close> on, the quotients being those of the rationals: the boundaries are
  \<open>count / 3\<close> and \<open>2 * count / 3\<close> rounded up, so that the hard band has
  \<open>count div 3\<close> questions and the items left over go to the easy band (and to the
  medium band when the remainder is two). For nine questions the bands are 0-2, 3-5 and 6-8.
\<close>

theorem C7_difficulty_bands:
  assumes "0 \<le> i" and "i < count"
  shows "field ''difficulty'' (quiz_questions (generateFallbackQuiz topic count now) ! nat i)
           = Some (JString
               (if i < \<lceil>(of_int count :: rat) / 3\<rceil> then ''easy''
                else if i < \<lceil>2 * (of_int count :: rat) / 3\<rceil> then ''medium''
                else ''hard''))
    \<and> card {j. 0 \<le> j \<and> j < count \<and> difficulty j count = ''hard''} = nat (count div 3)
    \<and> (count = 9 \<longrightarrow>
         field ''difficulty'' (quiz_questions (generateFallbackQuiz topic count now) ! nat i)
           = Some (JString
               (if i \<le> 2 then ''easy'' else if i \<le> 5 then ''medium'' else ''hard'')))"
proof -
  have q: "quiz_questions (generateFallbackQuiz topic count now) ! nat i
             = fallbackQuestion topic count i"
    using assms by (simp only: quiz_questions_fallback pushLoop_nth)
  have bands: "field ''difficulty'' (quiz_questions (generateFallbackQuiz topic count now) ! nat i)
           = Some (JString
               (if i < \<lceil>(of_int count :: rat) / 3\<rceil> then ''easy''
                else if i < \<lceil>2 * (of_int count :: rat) / 3\<rceil> then ''medium''
                else ''hard''))"
    by (simp only: q fallbackQuestion_difficulty difficulty_ceiling)
  have "{j. 0 \<le> j \<and> j < count \<and> difficulty j count = ''hard''}
          = {count - count div 3..<count}"
    using assms by (auto simp: difficulty_cases)
  then have hard: "card {j. 0 \<le> j \<and> j < count \<and> difficulty j count = ''hard''}
                     = nat (count div 3)"
    by simp
  have nine: "field ''difficulty'' (quiz_questions (generateFallbackQuiz topic count now) ! nat i)
          = Some (JString (if i \<le> 2 then ''easy'' else if i \<le> 5 then ''medium'' else ''hard''))"
    if "count = 9"
    unfolding q using that by (simp add: fallbackQuestion_difficulty difficulty_cases)
  from bands hard nine show ?thesis
    by blast
qed

theorem C7_difficulty_bands_witness:
  "(0::int) \<le> 3 \<and> (3::int) < 10
   \<and> field ''difficulty'' (quiz_questions (generateFallbackQuiz ''Photosynthesis'' 10 ''t'') ! nat 3)
       = Some (JString ''easy'')
   \<and> card {j. 0 \<le> j \<and> j < 10 \<and> difficulty j 10 = ''hard''} = 3
   \<and> (0::int) \<le> 6 \<and> (6::int) < 9
   \<and> field ''difficulty'' (quiz_questions (generateFallbackQuiz ''Photosynthesis'' 9 ''t'') ! nat 6)
       = Some (JString ''hard'')"
proof -
  have c: "\<lceil>(of_int 10 :: rat) / 3\<rceil> = 4"
    by (simp add: ceiling_eq_iff)
  show ?thesis
    using C7_difficulty_bands [of 3 10 "''Photosynthesis''" "''t''"]
      C7_difficulty_bands [of 6 9 "''Photosynthesis''" "''t''"] c
    by simp
qed

text \<open>
  Claim C9: for every topic and every count of at least one, the fallback generator
  produces that many questions; each of its multiple-choice questions has four options
  and an answer that is literally one of them, and each of its true-false questions has
  the answer \<open>True\<close> or \<open>False\<close>. Every question is of one of the two types.
\<close>

theorem C9_fallback_answers:
  assumes "1 \<le> count"
    and "q \<in> set (quiz_questions (generateFallbackQuiz topic count now))"
  shows "quiz_questions (generateFallbackQuiz topic count now) \<noteq> []
    \<and> (field ''type'' q = Some (JString ''multiple-choice'')
        \<or> field ''type'' q = Some (JString ''true-false''))
    \<and> (field ''type'' q = Some (JString ''multiple-choice'') \<longrightarrow>
         (\<exists>opts a. field ''options'' q = Some (JArray opts) \<and> length opts = 4
            \<and> field ''answer'' q = Some a \<and> a \<in> set opts))
    \<and> (field ''type'' q = Some (JString ''true-false'') \<longrightarrow>
         (field ''answer'' q = Some (JString ''True'')
          \<or> field ''answer'' q = Some (JString ''False'')))"
proof -
  have "length (quiz_questions (generateFallbackQuiz topic count now)) = nat count"
    by (simp only: quiz_questions_fallback pushLoop_length)
  with assms(1) have ne: "quiz_questions (generateFallbackQuiz topic count now) \<noteq> []"
    by auto
  from assms(2) obtain i where q: "q = fallbackQuestion topic count i"
    by (auto simp: quiz_questions_fallback pushLoop_set)
  show ?thesis
    using ne by (cases "i mod 2 = 0") (simp_all add: q fallbackQuestion_def)
qed

theorem C9_fallback_answers_witness:
  "(1::int) \<le> 2
   \<and> fallbackQuestion ''Cells'' 2 0 \<in> set (quiz_questions (generateFallbackQuiz ''Cells'' 2 ''t''))
   \<and> field ''type'' (fallbackQuestion ''Cells'' 2 0) = Some (JString ''multiple-choice'')
   \<and> (\<exists>opts a. field ''options'' (fallbackQuestion ''Cells'' 2 0) = Some (JArray opts)
         \<and> length opts = 4
         \<and> field ''answer'' (fallbackQuestion ''Cells'' 2 0) = Some a \<and> a \<in> set opts)"
proof -
  have m: "fallbackQuestion ''Cells'' 2 0
             \<in> set (quiz_questions (generateFallbackQuiz ''Cells'' 2 ''t''))"
    by (simp add: quiz_questions_fallback pushLoop_set)
  have t: "field ''type'' (fallbackQuestion ''Cells'' 2 0) = Some (JString ''multiple-choice'')"
    by (simp add: fallbackQuestion_def)
  show ?thesis
    using C9_fallback_answers [of 2 "fallbackQuestion ''Cells'' 2 0" "''Cells''" "''t''"] m t
    by simp
qed

text \<open>
  Claim C10: for every topic and every count of zero or less, the fallback generator
  still returns a quiz object; its \<open>questions\<close> array is empty and its
  \<open>total_questions\<close> is the count it was given.
\<close>

theorem C10_fallback_nonpositive:
  assumes "count \<le> 0"
  shows "field ''questions'' (generateFallbackQuiz topic count now) = Some (JArray [])
    \<and> field ''total_questions'' (generateFallbackQuiz topic count now)
        = Some (JNumber (of_int count))
    \<and> field ''title'' (generateFallbackQuiz topic count now) = Some (JString (topic @ '' Quiz''))"
  using assms
  by (simp add: generateFallbackQuiz_def pushLoop.simps [of _ count 0 "[]"])

theorem C10_fallback_nonpositive_witness:
  "(- 2 :: int) \<le> 0
   \<and> generateFallbackQuiz ''Cells'' (- 2) ''t''
       = JObject
           [(''title'', JString ''Cells Quiz''),
            (''total_questions'', JNumber (- 2)),
            (''questions'', JArray []),
            (''source'', JString ''Fallback quiz for Cells''),
            (''generated_at'', JString ''t'')]"
proof -
  have "field ''questions'' (generateFallbackQuiz ''Cells'' (- 2) ''t'') = Some (JArray [])"
    using C10_fallback_nonpositive [of "- 2" "''Cells''" "''t''"] by simp
  then show ?thesis
    by (simp add: generateFallbackQuiz_def quiz_questions_def)
qed


section \<open>Facts about the adapters and the generators\<close>

lemma trim_id:
  assumes "s \<noteq> []" and "\<not> js_whitespace (hd s)" and "\<not> js_whitespace (last s)"
  shows "trim s = s"
proof -
  have "dropWhile js_whitespace s = s"
    using assms by (simp add: dropWhile_eq_self_iff)
  moreover have "dropWhile js_whitespace (rev s) = rev s"
    using assms by (simp add: dropWhile_eq_self_iff hd_rev)
  ultimately show ?thesis
    by (simp add: trim_def)
qed

lemma cleanText_object:
  assumes "s \<noteq> []" and "hd s = CHR ''{''" and "last s = CHR ''}''"
  shows "cleanText s = s"
proof -
  have t: "trim s = s"
    using assms by (intro trim_id) (simp_all add: js_whitespace_def)
  have a: "\<not> startsWith s ''```json''"
    using assms by (cases s) (auto simp: startsWith_def)
  have b: "\<not> endsWith s ''```''"
  proof
    assume e: "endsWith s ''```''"
    then have "3 \<le> length s" and d: "drop (length s - 3) s = ''```''"
      by (simp_all add: endsWith_def numeral_3_eq_3)
    have "length s - 3 < length s"
      using assms(1) by (cases s) auto
    then have "last (drop (length s - 3) s) = last s"
      by (rule last_drop)
    then have "last s = last ''```''"
      by (simp only: d)
    with assms show False
      by simp
  qed
  show ?thesis
    by (simp add: cleanText_def t a b)
qed

lemma gemini_text_reply:
  "gemini_text (JObject [(''candidates'', JArray [JObject [(''content'',
     JObject [(''parts'', JArray [JObject [(''text'', JString text)]])])]])]) = Inr text"
  by (simp add: gemini_text_def)

lemma gemini_object:
  assumes "gemini_fetch env apiKey topic n = Response True status statusText (Some data)"
    and "gemini_text data = Inr quizText"
    and "JSON_parse env (cleanText quizText) = Some (JObject kvs)"
  shows "generateQuizWithGemini env apiKey topic n =
           Inr (JObject (AList.update ''generated_at'' (JString (date_now env))
                  (AList.update ''source'' (JString (''AI analysis of '' @ topic)) kvs)))"
  using assms by (simp add: generateQuizWithGemini_def)

lemma gemini_result_parsed:
  assumes "generateQuizWithGemini env apiKey topic n = Inr quiz"
  shows "\<exists>text parsed quiz1. JSON_parse env text = Some parsed
           \<and> set_property parsed ''source'' (JString (''AI analysis of '' @ topic)) = Inr quiz1
           \<and> set_property quiz1 ''generated_at'' (JString (date_now env)) = Inr quiz"
  using assms
  by (auto simp: generateQuizWithGemini_def
      split: http_result.splits if_splits option.splits sum.splits)

lemma huggingface_result:
  assumes "generateQuizWithHuggingFace env topic n = Inr quiz"
  shows "(\<exists>text. JSON_parse env text = Some quiz)
           \<or> (\<exists>content. quiz = createStructuredQuiz topic n content (date_now env))"
  using assms
  by (auto simp: generateQuizWithHuggingFace_def huggingface_try_def
      split: http_result.splits if_splits option.splits sum.splits json.splits)



lemma openai_fails: "generateQuizWithOpenAI topic n = Inl (Error ''OpenAI API not configured'')"
  by (simp add: generateQuizWithOpenAI_def)






lemma tryProviders_calls:
  "snd (tryProviders env api_key topic n) = [Gemini]
     \<and> (\<exists>quiz. generateQuizWithGemini env api_key topic n = Inr quiz)
   \<or> snd (tryProviders env api_key topic n) = [Gemini, OpenAI, HuggingFace]
     \<and> (\<exists>e. generateQuizWithGemini env api_key topic n = Inl e)"
  by (simp add: tryProviders_def openai_fails split: sum.splits)

lemma handler_post:
  assumes "req_method req = ''POST''" and "req_body req = Some body"
    and "body_api_key body = Some api_key" and "api_key \<noteq> []"
    and "body_topic body = Some topic" and "topic \<noteq> []"
    and "body_num_questions body = Some n"
  shows "handler env req =
           (Json 200 (fst (tryProviders env api_key topic n)),
            snd (tryProviders env api_key topic n))"
  using assms by (simp add: handler_def split: prod.splits)


section \<open>The handler's results\<close>




lemma example_gemini_object:
  assumes "text \<noteq> []" and "hd text = CHR ''{''" and "last text = CHR ''}''"
  shows "generateQuizWithGemini
           (example_env [(text, JObject kvs)] (gemini_reply text) huggingface) ''key'' topic n
         = Inr (JObject (AList.update ''generated_at'' (JString ''2025-01-01T00:00:00.000Z'')
                  (AList.update ''source'' (JString (''AI analysis of '' @ topic)) kvs)))"
proof -
  have "cleanText text = text"
    using assms by (rule cleanText_object)
  then show ?thesis
    by (simp add: generateQuizWithGemini_def example_env_def gemini_reply_def
        gemini_text_reply)
qed

lemma example_refusals:
  "\<exists>e. generateQuizWithGemini (example_env parses gemini_refusal huggingface) api_key topic n
          = Inl e"
  "\<exists>e. generateQuizWithHuggingFace (example_env parses gemini huggingface_refusal) topic n
          = Inl e"
  by (simp_all add: generateQuizWithGemini_def generateQuizWithHuggingFace_def
      huggingface_try_def example_env_def gemini_refusal_def huggingface_refusal_def)

text \<open>
  Claim C2, as stated, fails: nothing corrects \<open>total_questions\<close>. Gemini's text declares
  seven questions and has five; the quiz sent back still says seven.
\<close>

theorem C2_count_not_reconciled_counterexample:
  "handler (example_env [(seven_text, seven_json)] (gemini_reply seven_text) huggingface_refusal)
           (post ''key'' ''Cells'' 5)
     = (Json 200 seven_returned, [Gemini])
   \<and> field ''total_questions'' seven_returned = Some (JNumber 7)
   \<and> length (quiz_questions seven_returned) = 5"
proof -
  have "generateQuizWithGemini
          (example_env [(seven_text, seven_json)] (gemini_reply seven_text) huggingface_refusal)
          ''key'' ''Cells'' 5 = Inr seven_returned"
    unfolding seven_json_def
    by (subst example_gemini_object)
      (simp_all add: seven_text_def seven_returned_def)
  then show ?thesis
    by (simp add: handler_def post_def tryProviders_def seven_returned_def
        quiz_questions_def)
qed

text \<open>
  Claim C2, amended: a quiz produced from Gemini's response is sent back with the
  \<open>total_questions\<close> and the \<open>questions\<close> that the provider's JSON has; only \<open>source\<close>
  and \<open>generated_at\<close> are set, and \<open>total_questions\<close> is never corrected to the length
  of \<open>questions\<close>. So a provider that returns \<open>total_questions = 7\<close> with five questions
  gives a quiz with \<open>total_questions = 7\<close> and five questions.
\<close>

theorem C2_counts_unchanged:
  assumes "req_method req = ''POST''" and "req_body req = Some body"
    and "body_api_key body = Some api_key" and "api_key \<noteq> []"
    and "body_topic body = Some topic" and "topic \<noteq> []"
    and "body_num_questions body = Some n"
    and "gemini_fetch env api_key topic n = Response True status statusText (Some data)"
    and "gemini_text data = Inr quizText"
    and "JSON_parse env (cleanText quizText) = Some (JObject kvs)"
  shows "\<exists>quiz. handler env req = (Json 200 quiz, [Gemini])
    \<and> field ''total_questions'' quiz = map_of kvs ''total_questions''
    \<and> field ''questions'' quiz = map_of kvs ''questions''
    \<and> field ''source'' quiz = Some (JString (''AI analysis of '' @ topic))
    \<and> field ''generated_at'' quiz = Some (JString (date_now env))"
proof -
  let ?quiz = "JObject (AList.update ''generated_at'' (JString (date_now env))
                 (AList.update ''source'' (JString (''AI analysis of '' @ topic)) kvs))"
  have "generateQuizWithGemini env api_key topic n = Inr ?quiz"
    using assms(8-10) by (rule gemini_object)
  then have "handler env req = (Json 200 ?quiz, [Gemini])"
    by (simp add: handler_post [OF assms(1-7)] tryProviders_def)
  moreover have "field ''total_questions'' ?quiz = map_of kvs ''total_questions''"
    and "field ''questions'' ?quiz = map_of kvs ''questions''"
    and "field ''source'' ?quiz = Some (JString (''AI analysis of '' @ topic))"
    and "field ''generated_at'' ?quiz = Some (JString (date_now env))"
    by (simp_all add: update_conv')
  ultimately show ?thesis
    by blast
qed

theorem C2_counts_unchanged_witness:
  "gemini_fetch (example_env [(seven_text, seven_json)] (gemini_reply seven_text)
                   huggingface_refusal) ''key'' ''Cells'' 5
     = gemini_reply seven_text
   \<and> JSON_parse (example_env [(seven_text, seven_json)] (gemini_reply seven_text)
                   huggingface_refusal) (cleanText seven_text)
       = Some seven_json
   \<and> (\<exists>quiz. handler (example_env [(seven_text, seven_json)] (gemini_reply seven_text)
                         huggingface_refusal) (post ''key'' ''Cells'' 5)
                = (Json 200 quiz, [Gemini])
          \<and> field ''total_questions'' quiz = Some (JNumber 7)
          \<and> field ''questions'' quiz
              = Some (JArray [true_false_json, true_false_json, true_false_json,
                              true_false_json, true_false_json]))"
proof -
  let ?env = "example_env [(seven_text, seven_json)] (gemini_reply seven_text)
                huggingface_refusal"
  let ?body = "\<lparr>body_api_key = Some ''key'', body_topic = Some ''Cells'',
                  body_num_questions = Some 5\<rparr>"
  have c: "cleanText seven_text = seven_text"
    by (rule cleanText_object) (simp_all add: seven_text_def)
  have f: "gemini_fetch ?env ''key'' ''Cells'' 5
             = Response True 200 ''OK''
                 (Some (JObject [(''candidates'', JArray [JObject [(''content'',
                    JObject [(''parts'', JArray [JObject [(''text'', JString seven_text)]])])]])]))"
    by (simp add: example_env_def gemini_reply_def)
  have p: "JSON_parse ?env (cleanText seven_text)
             = Some (JObject [(''title'', JString ''Cells''), (''total_questions'', JNumber 7),
                  (''questions'', JArray [true_false_json, true_false_json, true_false_json,
                                          true_false_json, true_false_json])])"
    by (simp add: example_env_def c seven_json_def)
  have "\<exists>quiz. handler ?env (post ''key'' ''Cells'' 5) = (Json 200 quiz, [Gemini])
    \<and> field ''total_questions'' quiz
        = map_of [(''title'', JString ''Cells''), (''total_questions'', JNumber 7),
                  (''questions'', JArray [true_false_json, true_false_json, true_false_json,
                                          true_false_json, true_false_json])] ''total_questions''
    \<and> field ''questions'' quiz
        = map_of [(''title'', JString ''Cells''), (''total_questions'', JNumber 7),
                  (''questions'', JArray [true_false_json, true_false_json, true_false_json,
                                          true_false_json, true_false_json])] ''questions''
    \<and> field ''source'' quiz = Some (JString (''AI analysis of '' @ ''Cells''))
    \<and> field ''generated_at'' quiz = Some (JString (date_now ?env))"
    by (rule C2_counts_unchanged [where body = ?body and api_key = "''key''" and n = 5
          and quizText = seven_text, OF _ _ _ _ _ _ _ f gemini_text_reply p])
      (simp_all add: post_def)
  then obtain quiz where "handler ?env (post ''key'' ''Cells'' 5) = (Json 200 quiz, [Gemini])"
    and "field ''total_questions'' quiz = Some (JNumber 7)"
    and "field ''questions'' quiz
           = Some (JArray [true_false_json, true_false_json, true_false_json,
                           true_false_json, true_false_json])"
    by auto
  moreover have "gemini_fetch ?env ''key'' ''Cells'' 5 = gemini_reply seven_text"
    and "JSON_parse ?env (cleanText seven_text) = Some seven_json"
    by (simp_all add: example_env_def c)
  ultimately show ?thesis
    by blast
qed


text \<open>
  Claim C3, as stated, fails: the code has no schema validation. Gemini's text holds a
  question of type \<open>essay\<close> and a multiple-choice question whose answer is none of its
  options; the handler sends the quiz with status 200 and calls no other adapter.
\<close>

theorem C3_essay_accepted_counterexample:
  "handler (example_env [(essay_text, essay_json)] (gemini_reply essay_text) huggingface_refusal)
           (post ''key'' ''Cells'' 2)
     = (Json 200 essay_returned, [Gemini])
   \<and> quiz_questions essay_returned = [essay_question, loose_answer_question]
   \<and> field ''type'' essay_question = Some (JString ''essay'')
   \<and> \<not> valid_question essay_question
   \<and> \<not> valid_question loose_answer_question"
proof -
  have "generateQuizWithGemini
          (example_env [(essay_text, essay_json)] (gemini_reply essay_text) huggingface_refusal)
          ''key'' ''Cells'' 2 = Inr essay_returned"
    unfolding essay_json_def
    by (subst example_gemini_object) (simp_all add: essay_text_def essay_returned_def)
  then have "handler
          (example_env [(essay_text, essay_json)] (gemini_reply essay_text) huggingface_refusal)
          (post ''key'' ''Cells'' 2) = (Json 200 essay_returned, [Gemini])"
    by (simp add: handler_def post_def tryProviders_def)
  moreover have "quiz_questions essay_returned = [essay_question, loose_answer_question]"
    by (simp add: essay_returned_def quiz_questions_def)
  moreover have "field ''type'' essay_question = Some (JString ''essay'')"
    and "\<not> valid_question essay_question"
    by (simp_all add: essay_question_def valid_question_def)
  moreover have "\<not> valid_question loose_answer_question"
    by (simp add: loose_answer_question_def valid_question_def)
  ultimately show ?thesis
    by blast
qed

text \<open>
  Claim C3, amended: a candidate obtained from Gemini is not validated. Whenever its text
  parses to a JSON object the handler sends that object back, with \<open>source\<close> and
  \<open>generated_at\<close> set, whatever the types, options and answers of its questions, and
  calls no other adapter; the candidate is discarded and the chain advances to the next
  adapters when the text does not parse.
\<close>

theorem C3_candidate_not_validated:
  assumes "req_method req = ''POST''" and "req_body req = Some body"
    and "body_api_key body = Some api_key" and "api_key \<noteq> []"
    and "body_topic body = Some topic" and "topic \<noteq> []"
    and "body_num_questions body = Some n"
    and "gemini_fetch env api_key topic n = Response True status statusText (Some data)"
    and "gemini_text data = Inr quizText"
  shows "(JSON_parse env (cleanText quizText) = Some (JObject kvs) \<longrightarrow>
            handler env req =
              (Json 200
                 (JObject (AList.update ''generated_at'' (JString (date_now env))
                    (AList.update ''source'' (JString (''AI analysis of '' @ topic)) kvs))),
               [Gemini]))
    \<and> (JSON_parse env (cleanText quizText) = None \<longrightarrow>
            snd (handler env req) = [Gemini, OpenAI, HuggingFace])"
proof (intro conjI impI)
  assume "JSON_parse env (cleanText quizText) = Some (JObject kvs)"
  with assms(8,9) have "generateQuizWithGemini env api_key topic n =
      Inr (JObject (AList.update ''generated_at'' (JString (date_now env))
             (AList.update ''source'' (JString (''AI analysis of '' @ topic)) kvs)))"
    by (rule gemini_object)
  then show "handler env req =
      (Json 200
         (JObject (AList.update ''generated_at'' (JString (date_now env))
            (AList.update ''source'' (JString (''AI analysis of '' @ topic)) kvs))),
       [Gemini])"
    by (simp add: handler_post [OF assms(1-7)] tryProviders_def)
next
  assume "JSON_parse env (cleanText quizText) = None"
  with assms(8,9) have "\<exists>e. generateQuizWithGemini env api_key topic n = Inl e"
    by (simp add: generateQuizWithGemini_def)
  then show "snd (handler env req) = [Gemini, OpenAI, HuggingFace]"
    using tryProviders_calls [of env api_key topic n]
    by (auto simp: handler_post [OF assms(1-7)])
qed

theorem C3_candidate_not_validated_witness:
  "JSON_parse (example_env [(essay_text, essay_json)] (gemini_reply essay_text)
                 huggingface_refusal) (cleanText essay_text)
     = Some essay_json
   \<and> handler (example_env [(essay_text, essay_json)] (gemini_reply essay_text)
                huggingface_refusal) (post ''key'' ''Cells'' 2)
       = (Json 200 essay_returned, [Gemini])
   \<and> JSON_parse (example_env [] (gemini_reply essay_text) huggingface_refusal)
        (cleanText essay_text) = None
   \<and> snd (handler (example_env [] (gemini_reply essay_text) huggingface_refusal)
             (post ''key'' ''Cells'' 2))
       = [Gemini, OpenAI, HuggingFace]"
proof -
  let ?env = "example_env [(essay_text, essay_json)] (gemini_reply essay_text)
                huggingface_refusal"
  let ?env' = "example_env [] (gemini_reply essay_text) huggingface_refusal"
  let ?body = "\<lparr>body_api_key = Some ''key'', body_topic = Some ''Cells'',
                  body_num_questions = Some 2\<rparr>"
  let ?data = "JObject [(''candidates'', JArray [JObject [(''content'',
                 JObject [(''parts'', JArray [JObject [(''text'', JString essay_text)]])])]])]"
  have c: "cleanText essay_text = essay_text"
    by (rule cleanText_object) (simp_all add: essay_text_def)
  have f: "gemini_fetch ?env ''key'' ''Cells'' 2 = Response True 200 ''OK'' (Some ?data)"
    and f': "gemini_fetch ?env' ''key'' ''Cells'' 2 = Response True 200 ''OK'' (Some ?data)"
    by (simp_all add: example_env_def gemini_reply_def)
  have p: "JSON_parse ?env (cleanText essay_text) = Some essay_json"
    and p': "JSON_parse ?env' (cleanText essay_text) = None"
    by (simp_all add: example_env_def c)
  have "handler ?env (post ''key'' ''Cells'' 2) = (Json 200 essay_returned, [Gemini])"
    using C3_candidate_not_validated [where body = ?body and api_key = "''key''" and n = 2
        and req = "post ''key'' ''Cells'' 2" and topic = "''Cells''"
        and quizText = essay_text and env = ?env
        and kvs = "[(''title'', JString ''Cells''), (''total_questions'', JNumber 2),
                    (''questions'', JArray [essay_question, loose_answer_question])]",
        OF _ _ _ _ _ _ _ f gemini_text_reply] p
    by (simp add: post_def essay_json_def essay_returned_def example_env_def)
  moreover have "snd (handler ?env' (post ''key'' ''Cells'' 2)) = [Gemini, OpenAI, HuggingFace]"
    using C3_candidate_not_validated [where body = ?body and api_key = "''key''" and n = 2
        and req = "post ''key'' ''Cells'' 2" and topic = "''Cells''"
        and quizText = essay_text and env = ?env',
        OF _ _ _ _ _ _ _ f' gemini_text_reply] p'
    by (simp add: post_def)
  ultimately show ?thesis
    using p p' by blast
qed

text \<open>
  Claim C4, as stated, fails: the count is not checked. A request for zero questions, with
  a topic and a key, goes through the three adapters and is answered with a quiz.
\<close>

theorem C4_zero_count_counterexample:
  "handler (example_env [] gemini_refusal huggingface_refusal) (post ''key'' ''Cells'' 0)
     = (Json 200
          (JObject [(''title'', JString ''Cells Quiz''), (''total_questions'', JNumber 0),
                    (''questions'', JArray []),
                    (''source'', JString ''Fallback quiz for Cells''),
                    (''generated_at'', JString ''2025-01-01T00:00:00.000Z'')]),
        [Gemini, OpenAI, HuggingFace])"
proof -
  obtain e e' where
    "generateQuizWithGemini (example_env [] gemini_refusal huggingface_refusal)
       ''key'' ''Cells'' 0 = Inl e"
    and "generateQuizWithHuggingFace (example_env [] gemini_refusal huggingface_refusal)
       ''Cells'' 0 = Inl e'"
    using example_refusals by blast
  then show ?thesis
    by (simp add: handler_def post_def tryProviders_def openai_fails generateFallbackQuiz_def
        pushLoop.simps [of _ 0 0] example_env_def)
qed

text \<open>
  Claim C4, amended: for a request whose topic is missing or empty no provider is called
  and no quiz is returned. A POST request with a body is then rejected with status 400:
  the error is \<open>Topic is required\<close>, or \<open>API key is required\<close> when the key is missing
  or empty as well, the key being checked first. A POST request without a body, which has
  neither topic nor key, makes the destructuring throw and is answered with status 500
  and an error that begins \<open>Failed to generate quiz: \<close>. The count is not checked: every
  POST request with a non-empty key and a non-empty topic, whatever its count, also zero
  or negative, is passed to the providers, Gemini first, and is answered 200 with a quiz;
  when the count is zero or negative and every provider fails, that quiz is the fallback's,
  with an empty \<open>questions\<close> array.
\<close>

theorem C4_empty_topic_rejected:
  "((req_body req = None
       \<or> (\<exists>body. req_body req = Some body
             \<and> (body_topic body = None \<or> body_topic body = Some []))) \<longrightarrow>
      snd (handler env req) = [] \<and> (\<forall>quiz. fst (handler env req) \<noteq> Json 200 quiz))
   \<and> (req_method req = ''POST'' \<and> req_body req = None \<longrightarrow>
        (\<exists>msg. handler env req
           = (Json 500 (error_body (''Failed to generate quiz: '' @ msg)), [])))
   \<and> (req_method req = ''POST'' \<and> req_body req = Some body
        \<and> (body_topic body = None \<or> body_topic body = Some []) \<longrightarrow>
        handler env req =
          (Json 400
             (error_body
                (if body_api_key body = None \<or> body_api_key body = Some []
                 then ''API key is required'' else ''Topic is required'')),
           []))
   \<and> (req_method req = ''POST'' \<and> req_body req = Some body
        \<and> body_api_key body = Some api_key \<and> api_key \<noteq> []
        \<and> body_topic body = Some topic \<and> topic \<noteq> [] \<longrightarrow>
        (\<exists>quiz calls. handler env req = (Json 200 quiz, Gemini # calls)))
   \<and> (req_method req = ''POST'' \<and> req_body req = Some body
        \<and> body_api_key body = Some api_key \<and> api_key \<noteq> []
        \<and> body_topic body = Some topic \<and> topic \<noteq> []
        \<and> body_num_questions body = Some count \<and> count \<le> 0
        \<and> (\<exists>e. generateQuizWithGemini env api_key topic count = Inl e)
        \<and> (\<exists>e. generateQuizWithHuggingFace env topic count = Inl e) \<longrightarrow>
        handler env req =
          (Json 200
             (JObject [(''title'', JString (topic @ '' Quiz'')),
                       (''total_questions'', JNumber (of_int count)),
                       (''questions'', JArray []),
                       (''source'', JString (''Fallback quiz for '' @ topic)),
                       (''generated_at'', JString (date_now env))]),
           [Gemini, OpenAI, HuggingFace]))"
proof -
  have c0: "(req_body req = None
       \<or> (\<exists>body. req_body req = Some body
             \<and> (body_topic body = None \<or> body_topic body = Some []))) \<longrightarrow>
      snd (handler env req) = [] \<and> (\<forall>quiz. fst (handler env req) \<noteq> Json 200 quiz)"
    by (auto simp: handler_def split: option.splits)
  have c1: "req_method req = ''POST'' \<and> req_body req = None \<longrightarrow>
        (\<exists>msg. handler env req
           = (Json 500 (error_body (''Failed to generate quiz: '' @ msg)), []))"
  proof
    assume "req_method req = ''POST'' \<and> req_body req = None"
    then have "handler env req
      = (Json 500 (error_body (''Failed to generate quiz: ''
           @ ''Cannot destructure property of req.body'')), [])"
      by (simp add: handler_def)
    then show "\<exists>msg. handler env req
           = (Json 500 (error_body (''Failed to generate quiz: '' @ msg)), [])"
      by blast
  qed
  have c2: "req_method req = ''POST'' \<and> req_body req = Some body
        \<and> (body_topic body = None \<or> body_topic body = Some []) \<longrightarrow>
        handler env req =
          (Json 400
             (error_body
                (if body_api_key body = None \<or> body_api_key body = Some []
                 then ''API key is required'' else ''Topic is required'')),
           [])"
    by (auto simp: handler_def split: option.splits)
  have c3: "req_method req = ''POST'' \<and> req_body req = Some body
        \<and> body_api_key body = Some api_key \<and> api_key \<noteq> []
        \<and> body_topic body = Some topic \<and> topic \<noteq> [] \<longrightarrow>
        (\<exists>quiz calls. handler env req = (Json 200 quiz, Gemini # calls))"
  proof
    assume a: "req_method req = ''POST'' \<and> req_body req = Some body
        \<and> body_api_key body = Some api_key \<and> api_key \<noteq> []
        \<and> body_topic body = Some topic \<and> topic \<noteq> []"
    define n where "n = (case body_num_questions body of None \<Rightarrow> 10 | Some n \<Rightarrow> n)"
    have "handler env req =
          (Json 200 (fst (tryProviders env api_key topic n)),
           snd (tryProviders env api_key topic n))"
      using a by (simp add: handler_def n_def split: prod.splits)
    moreover have "\<exists>calls. snd (tryProviders env api_key topic n) = Gemini # calls"
      using tryProviders_calls [of env api_key topic n] by auto
    ultimately show "\<exists>quiz calls. handler env req = (Json 200 quiz, Gemini # calls)"
      by auto
  qed
  have c4: "req_method req = ''POST'' \<and> req_body req = Some body
        \<and> body_api_key body = Some api_key \<and> api_key \<noteq> []
        \<and> body_topic body = Some topic \<and> topic \<noteq> []
        \<and> body_num_questions body = Some count \<and> count \<le> 0
        \<and> (\<exists>e. generateQuizWithGemini env api_key topic count = Inl e)
        \<and> (\<exists>e. generateQuizWithHuggingFace env topic count = Inl e) \<longrightarrow>
        handler env req =
          (Json 200
             (JObject [(''title'', JString (topic @ '' Quiz'')),
                       (''total_questions'', JNumber (of_int count)),
                       (''questions'', JArray []),
                       (''source'', JString (''Fallback quiz for '' @ topic)),
                       (''generated_at'', JString (date_now env))]),
           [Gemini, OpenAI, HuggingFace])"
  proof
    assume a: "req_method req = ''POST'' \<and> req_body req = Some body
        \<and> body_api_key body = Some api_key \<and> api_key \<noteq> []
        \<and> body_topic body = Some topic \<and> topic \<noteq> []
        \<and> body_num_questions body = Some count \<and> count \<le> 0
        \<and> (\<exists>e. generateQuizWithGemini env api_key topic count = Inl e)
        \<and> (\<exists>e. generateQuizWithHuggingFace env topic count = Inl e)"
    then have "handler env req =
          (Json 200 (fst (tryProviders env api_key topic count)),
           snd (tryProviders env api_key topic count))"
      by (intro handler_post) blast+
    moreover have "tryProviders env api_key topic count
      = (generateFallbackQuiz topic count (date_now env), [Gemini, OpenAI, HuggingFace])"
      using a by (auto simp: tryProviders_def openai_fails)
    moreover have "pushLoop (fallbackQuestion topic count) count 0 [] = []"
      using a by (simp add: pushLoop.simps [of _ count 0 "[]"])
    ultimately show "handler env req =
          (Json 200
             (JObject [(''title'', JString (topic @ '' Quiz'')),
                       (''total_questions'', JNumber (of_int count)),
                       (''questions'', JArray []),
                       (''source'', JString (''Fallback quiz for '' @ topic)),
                       (''generated_at'', JString (date_now env))]),
           [Gemini, OpenAI, HuggingFace])"
      by (simp add: generateFallbackQuiz_def)
  qed
  show ?thesis
    by (rule conjI [OF c0 conjI [OF c1 conjI [OF c2 conjI [OF c3 c4]]]])
qed

theorem C4_empty_topic_rejected_witness:
  "req_method (post ''key'' [] 5) = ''POST''
   \<and> handler (example_env [] (gemini_reply seven_text) huggingface_refusal) (post ''key'' [] 5)
       = (Json 400 (JObject [(''error'', JString ''Topic is required'')]), [])
   \<and> (\<exists>msg. handler (example_env [] (gemini_reply seven_text) huggingface_refusal)
                \<lparr>req_method = ''POST'', req_body = None\<rparr>
              = (Json 500 (error_body (''Failed to generate quiz: '' @ msg)), []))
   \<and> (- 3 :: int) \<le> 0
   \<and> handler (example_env [] gemini_refusal huggingface_refusal) (post ''key'' ''Cells'' (- 3))
       = (Json 200
            (JObject [(''title'', JString ''Cells Quiz''), (''total_questions'', JNumber (- 3)),
                      (''questions'', JArray []),
                      (''source'', JString ''Fallback quiz for Cells''),
                      (''generated_at'', JString ''2025-01-01T00:00:00.000Z'')]),
          [Gemini, OpenAI, HuggingFace])"
proof -
  let ?env = "example_env [] (gemini_reply seven_text) huggingface_refusal"
  let ?env' = "example_env [] gemini_refusal huggingface_refusal"
  have "handler ?env (post ''key'' [] 5)
          = (Json 400 (JObject [(''error'', JString ''Topic is required'')]), [])"
    using C4_empty_topic_rejected [where req = "post ''key'' [] 5" and env = ?env
        and body = "\<lparr>body_api_key = Some ''key'', body_topic = Some [],
                        body_num_questions = Some 5\<rparr>"]
    by (simp add: post_def error_body_def)
  moreover have "\<exists>msg. handler ?env \<lparr>req_method = ''POST'', req_body = None\<rparr>
              = (Json 500 (error_body (''Failed to generate quiz: '' @ msg)), [])"
    using C4_empty_topic_rejected [where req = "\<lparr>req_method = ''POST'', req_body = None\<rparr>"
        and env = ?env]
    by simp
  moreover have "handler ?env' (post ''key'' ''Cells'' (- 3))
       = (Json 200
            (JObject [(''title'', JString ''Cells Quiz''), (''total_questions'', JNumber (- 3)),
                      (''questions'', JArray []),
                      (''source'', JString ''Fallback quiz for Cells''),
                      (''generated_at'', JString ''2025-01-01T00:00:00.000Z'')]),
          [Gemini, OpenAI, HuggingFace])"
    using C4_empty_topic_rejected [where req = "post ''key'' ''Cells'' (- 3)" and env = ?env'
        and body = "\<lparr>body_api_key = Some ''key'', body_topic = Some ''Cells'',
                        body_num_questions = Some (- 3)\<rparr>"
        and api_key = "''key''" and topic = "''Cells''" and count = "- 3"]
      example_refusals(1) [of "[]" huggingface_refusal "''key''" "''Cells''" "- 3"]
      example_refusals(2) [of "[]" gemini_refusal "''Cells''" "- 3"]
    by (simp add: post_def example_env_def)
  ultimately show ?thesis
    by (simp add: post_def)
qed

section \<open>The Hugging Face path and the metadata\<close>

lemma example_huggingface_json:
  assumes "text \<noteq> []" and "match_braces text = Some jsonMatch"
  shows "generateQuizWithHuggingFace
           (example_env [(jsonMatch, quiz)] gemini (huggingface_reply text)) topic n
         = Inr quiz"
  using assms
  by (simp add: generateQuizWithHuggingFace_def huggingface_try_def example_env_def
      huggingface_reply_def generated_text_or_def)

text \<open>
  Claim C5 at an input where the code departs from it: Gemini refuses, OpenAI is not
  configured, Hugging Face answers with a sentence around a quiz whose JSON has a
  \<open>source\<close> of its own. The adapters are called in the fixed order, once each, and the
  quiz of the third is sent back; but its \<open>source\<close> is the one the provider wrote, not
  one that names the Hugging Face path.
\<close>

theorem C5_huggingface_source_evaluation:
  "handler (example_env [(sourced_quiz_text, sourced_quiz_json)] gemini_refusal
              (huggingface_reply chatty_text))
           (post ''key'' ''Cells'' 1)
     = (Json 200 sourced_quiz_json, [Gemini, OpenAI, HuggingFace])
   \<and> field ''source'' sourced_quiz_json = Some (JString ''Wikipedia'')"
proof -
  have m: "match_braces chatty_text = Some sourced_quiz_text"
    by (simp add: match_braces_def chatty_text_def sourced_quiz_text_def true_false_text_def)
  have "chatty_text \<noteq> []"
    by (simp add: chatty_text_def)
  then have "generateQuizWithHuggingFace
          (example_env [(sourced_quiz_text, sourced_quiz_json)] gemini_refusal
             (huggingface_reply chatty_text)) ''Cells'' 1 = Inr sourced_quiz_json"
    using m by (rule example_huggingface_json)
  moreover obtain e where
    "generateQuizWithGemini
       (example_env [(sourced_quiz_text, sourced_quiz_json)] gemini_refusal
          (huggingface_reply chatty_text)) ''key'' ''Cells'' 1 = Inl e"
    using example_refusals(1) by blast
  ultimately show ?thesis
    by (simp add: handler_def post_def tryProviders_def openai_fails sourced_quiz_json_def)
qed

text \<open>
  Claim C8 at an input where the code departs from it: the Hugging Face adapter returns
  the JSON it finds in the generated text as parsed, where the Gemini adapter and the two
  local generators set \<open>source\<close> and \<open>generated_at\<close>. The quiz sent back has neither.
\<close>

theorem C8_huggingface_metadata_evaluation:
  "handler (example_env [(bare_quiz_text, bare_quiz_json)] gemini_refusal
              (huggingface_reply bare_quiz_text))
           (post ''key'' ''Cells'' 1)
     = (Json 200
          (JObject [(''title'', JString ''Cells''), (''total_questions'', JNumber 1),
                    (''questions'', JArray [true_false_json])]),
        [Gemini, OpenAI, HuggingFace])
   \<and> field ''source'' bare_quiz_json = None
   \<and> field ''generated_at'' bare_quiz_json = None"
proof -
  have m: "match_braces bare_quiz_text = Some bare_quiz_text"
    by (simp add: match_braces_def bare_quiz_text_def true_false_text_def)
  have "bare_quiz_text \<noteq> []"
    by (simp add: bare_quiz_text_def)
  then have "generateQuizWithHuggingFace
          (example_env [(bare_quiz_text, bare_quiz_json)] gemini_refusal
             (huggingface_reply bare_quiz_text)) ''Cells'' 1 = Inr bare_quiz_json"
    using m by (rule example_huggingface_json)
  moreover obtain e where
    "generateQuizWithGemini
       (example_env [(bare_quiz_text, bare_quiz_json)] gemini_refusal
          (huggingface_reply bare_quiz_text)) ''key'' ''Cells'' 1 = Inl e"
    using example_refusals(1) by blast
  ultimately show ?thesis
    by (simp add: handler_def post_def tryProviders_def openai_fails bare_quiz_json_def)
qed


section \<open>Cleaning and extraction\<close>


















end
